theory Spec2Isabelle
  imports Main "HOL-Library.Option_ord" "HOL-Library.Multiset"
begin

section \<open>Data model (shared/schema.ts)\<close>

text \<open>
  Timestamps are milliseconds since the epoch, as \<^verbatim>\<open>Date.now()\<close> gives them.
  A nullable column is an \<open>option\<close>.  Column selectors carry a table prefix
  (\<open>folder_id\<close>, \<open>doc_id\<close>, \<open>user_id\<close>, \<open>log_id\<close>), since the tables share
  column names.
\<close>

type_synonym timestamp = int

text \<open>
  The text of a date column in the API: \<^verbatim>\<open>""\<close>, or the ISO 8601 text that
  \<^verbatim>\<open>Date.prototype.toISOString\<close> gives for a time.  The text is kept symbolic, as
  the time it renders.
\<close>

datatype date_text = EmptyText | ISOString timestamp

datatype json =
    JUndefined
  | JNull
  | JBool bool
  | JNum int
  | JStr string
  | JArr "json list"
  | JObj "(string \<times> json) list"

record User =
  user_id :: int
  user_username :: string
  user_email :: string
  user_firstName :: "string option"
  user_lastName :: "string option"
  user_role :: string
  user_createdAt :: "timestamp option"
  user_updatedAt :: "timestamp option"

record Folder =
  folder_id :: int
  folder_name :: string
  folder_parentId :: "int option"
  folder_path :: string
  folder_type :: string
  folder_permissions :: "(string \<times> string list) list option"
  folder_createdBy :: int
  folder_createdAt :: "timestamp option"
  folder_updatedAt :: "timestamp option"

text \<open>
  The columns of \<^verbatim>\<open>documents\<close>.  The database row has \<open>'t = 'e = timestamp option\<close>;
  the \<^verbatim>\<open>Document\<close> type of the API has the three date columns rendered as strings
  (\<open>'t = date_text\<close>, \<open>'e = date_text option\<close>).
\<close>

record ('t, 'e) document_cols =
  doc_id :: int
  doc_name :: string
  doc_originalName :: string
  doc_folderId :: int
  doc_fileType :: string
  doc_fileSize :: int
  doc_filePath :: string
  doc_mimeType :: string
  doc_status :: string
  doc_tags :: "string list option"
  doc_description :: "string option"
  doc_version :: int
  doc_isLatestVersion :: bool
  doc_parentDocumentId :: "int option"
  doc_expirationDate :: 'e
  doc_createdBy :: int
  doc_createdAt :: 't
  doc_updatedAt :: 't

type_synonym DocumentRow = "(timestamp option, timestamp option) document_cols"
type_synonym Document = "(date_text, date_text option) document_cols"

text \<open>\<^verbatim>\<open>Document & { createdByUser: User; folder: Folder }\<close>\<close>

record ('t, 'e) document_details = "('t, 'e) document_cols" +
  createdByUser :: User
  folder :: Folder

type_synonym DetailsRow = "(timestamp option, timestamp option) document_details"
type_synonym DocumentWithDetails = "(date_text, date_text option) document_details"

record DocumentShare =
  share_id :: int
  share_documentId :: int
  share_shareToken :: string
  share_expiresAt :: "timestamp option"
  share_maxViews :: "int option"
  share_currentViews :: int
  share_createdBy :: int
  share_createdAt :: "timestamp option"

record ActivityLog =
  log_id :: int
  log_userId :: int
  log_action :: string
  log_resourceType :: string
  log_resourceId :: int
  log_metadata :: "(string \<times> json) list option"
  log_createdAt :: "timestamp option"

text \<open>
  The relational store: one list of rows per table, in insertion order, and the
  last value of the \<^verbatim>\<open>serial\<close> sequence of each table the modelled operations
  insert into.  The schema declares no foreign key.
\<close>

record store =
  users :: "User list"
  folders :: "Folder list"
  documents :: "DocumentRow list"
  documentShares :: "DocumentShare list"
  activityLog :: "ActivityLog list"
  folders_id_seq :: int
  activity_log_id_seq :: int

section \<open>What the store rejects\<close>

text \<open>
  An operation raises where the JavaScript does: an error of the store reaches the
  caller of a storage method as a rejected promise, and a route handler answers it
  from its \<^verbatim>\<open>catch\<close>.  A statement that the store rejects changes no table.
\<close>

datatype error = TypeError | ENOENT | StorageFailure

text \<open>
  The id columns and the columns that refer to them are 32-bit integers.  The store
  rejects a statement in which a number outside that range is compared with such a
  column or written to it.
\<close>

definition int4 :: "int \<Rightarrow> bool" where
  "int4 i = (- 2147483648 \<le> i \<and> i \<le> 2147483647)"

section \<open>Folder operations (server/storage.ts)\<close>

text \<open>\<^verbatim>\<open>const [folder] = await db.select().from(folders).where(eq(folders.id, id))\<close>\<close>

definition getFolderById :: "store \<Rightarrow> int \<Rightarrow> error + Folder option" where
  "getFolderById s i =
     (if int4 i then Inr (find (\<lambda>f. folder_id f = i) (folders s)) else Inl StorageFailure)"

text \<open>
  The argument of \<^verbatim>\<open>createFolder\<close>: \<^verbatim>\<open>Omit<InsertFolder, 'path'> & { createdBy: number }\<close>.
  For \<open>ins_parentId\<close>, \<open>None\<close> is an omitted key (\<^verbatim>\<open>undefined\<close>), \<open>Some None\<close> is \<^verbatim>\<open>null\<close>
  and \<open>Some (Some p)\<close> is the number \<open>p\<close>.  For the other optional keys \<open>None\<close> is
  \<^verbatim>\<open>null\<close> or an omitted key, which the code does not tell apart.
\<close>

record InsertFolder =
  ins_name :: string
  ins_parentId :: "int option option"
  ins_type :: "string option"
  ins_permissions :: "(string \<times> string list) list option"
  ins_createdBy :: int

text \<open>
  A template literal renders \<^verbatim>\<open>undefined\<close> as the text \<^verbatim>\<open>undefined\<close>;
  \<^verbatim>\<open>(await this.getFolderById(p))?.path\<close> is \<^verbatim>\<open>undefined\<close> when no row has the id.
\<close>

definition template_str :: "string option \<Rightarrow> string" where
  "template_str v = (case v of None \<Rightarrow> ''undefined'' | Some x \<Rightarrow> x)"

text \<open>
  \<^verbatim>\<open>folder.parentId ? `${parent?.path}/${folder.name}` : folder.name\<close>:
  the test is JavaScript truthiness, so \<^verbatim>\<open>undefined\<close>, \<^verbatim>\<open>null\<close> and \<open>0\<close> all take the
  second branch.  The lookup of the parent raises when the store rejects the id.
\<close>

definition createFolder_path :: "store \<Rightarrow> InsertFolder \<Rightarrow> error + string" where
  "createFolder_path s fd =
     (case ins_parentId fd of
        None \<Rightarrow> Inr (ins_name fd)
      | Some None \<Rightarrow> Inr (ins_name fd)
      | Some (Some p) \<Rightarrow>
          if p = 0 then Inr (ins_name fd)
          else (case getFolderById s p of
                  Inl err \<Rightarrow> Inl err
                | Inr parent \<Rightarrow>
                    Inr (template_str (map_option folder_path parent) @ ''/'' @ ins_name fd)))"

text \<open>\<^verbatim>\<open>folder.type || 'standard'\<close>: an absent or empty type gives the default.\<close>

definition type_or_standard :: "string option \<Rightarrow> string" where
  "type_or_standard t = (case t of None \<Rightarrow> ''standard'' | Some x \<Rightarrow> if x = [] then ''standard'' else x)"

text \<open>
  The raw \<^verbatim>\<open>INSERT INTO folders (...) VALUES (...) RETURNING *\<close>.  The store rejects it
  when \<^verbatim>\<open>folder.parentId\<close> is \<^verbatim>\<open>undefined\<close> (the template leaves the parameter out and
  the statement does not parse) and when \<^verbatim>\<open>parentId\<close> or \<^verbatim>\<open>createdBy\<close> is outside the
  range of its column.
\<close>

definition insert_folder_accepted :: "InsertFolder \<Rightarrow> bool" where
  "insert_folder_accepted fd =
     ((case ins_parentId fd of None \<Rightarrow> False | Some None \<Rightarrow> True | Some (Some p) \<Rightarrow> int4 p) \<and>
      int4 (ins_createdBy fd))"

text \<open>
  \<^verbatim>\<open>createFolder\<close>: the path, then the insert with \<^verbatim>\<open>NOW()\<close> for both timestamps and the
  id from the serial sequence.  There is no check that the parent exists.
\<close>

definition createFolder :: "timestamp \<Rightarrow> store \<Rightarrow> InsertFolder \<Rightarrow> store \<times> (error + Folder)" where
  "createFolder now s fd =
     (case createFolder_path s fd of
        Inl err \<Rightarrow> (s, Inl err)
      | Inr path \<Rightarrow>
          if \<not> insert_folder_accepted fd then (s, Inl StorageFailure)
          else
            (let row = \<lparr> folder_id = folders_id_seq s + 1,
                         folder_name = ins_name fd,
                         folder_parentId = (case ins_parentId fd of None \<Rightarrow> None | Some v \<Rightarrow> v),
                         folder_path = path,
                         folder_type = type_or_standard (ins_type fd),
                         folder_permissions =
                           Some (case ins_permissions fd of None \<Rightarrow> [] | Some ps \<Rightarrow> ps),
                         folder_createdBy = ins_createdBy fd,
                         folder_createdAt = Some now,
                         folder_updatedAt = Some now \<rparr>
             in (s\<lparr> folders := folders s @ [row], folders_id_seq := folders_id_seq s + 1 \<rparr>,
                 Inr row)))"

section \<open>Document queries (server/storage.ts)\<close>

text \<open>
  The \<^verbatim>\<open>.select({ id: documents.id, ..., createdByUser: users, folder: folders })\<close>
  projection shared by the three document queries.
\<close>

definition select_details :: "DocumentRow \<Rightarrow> User \<Rightarrow> Folder \<Rightarrow> DetailsRow" where
  "select_details d u f =
     \<lparr> doc_id = doc_id d, doc_name = doc_name d, doc_originalName = doc_originalName d,
       doc_folderId = doc_folderId d, doc_fileType = doc_fileType d, doc_fileSize = doc_fileSize d,
       doc_filePath = doc_filePath d, doc_mimeType = doc_mimeType d, doc_status = doc_status d,
       doc_tags = doc_tags d, doc_description = doc_description d, doc_version = doc_version d,
       doc_isLatestVersion = doc_isLatestVersion d, doc_parentDocumentId = doc_parentDocumentId d,
       doc_expirationDate = doc_expirationDate d, doc_createdBy = doc_createdBy d,
       doc_createdAt = doc_createdAt d, doc_updatedAt = doc_updatedAt d,
       createdByUser = u, folder = f \<rparr>"

text \<open>
  \<^verbatim>\<open>.from(documents).innerJoin(users, eq(documents.createdBy, users.id))
  .innerJoin(folders, eq(documents.folderId, folders.id)).where(cond)\<close>:
  one result row for every document, user and folder row that match.
\<close>

definition from_documents_join :: "store \<Rightarrow> (DocumentRow \<Rightarrow> bool) \<Rightarrow> DetailsRow list" where
  "from_documents_join s cond =
     [select_details d u f.
        d \<leftarrow> documents s,
        u \<leftarrow> users s, doc_createdBy d = user_id u,
        f \<leftarrow> folders s, doc_folderId d = folder_id f,
        cond d]"

text \<open>
  \<^verbatim>\<open>.orderBy(desc(documents.createdAt))\<close>.  The store sorts \<^verbatim>\<open>NULL\<close> above every
  value, so a descending order lists the rows without a creation time first.  The
  sort key below is \<open>None\<close> for those and the negated time otherwise, sorted
  ascending.  Rows with equal keys stay in the order of the join; the store
  promises no order among them.
\<close>

definition createdAt_desc_key :: "('t option, 'e, 'z) document_cols_scheme \<Rightarrow> 't::uminus option" where
  "createdAt_desc_key r = map_option uminus (doc_createdAt r)"

definition orderBy_desc_createdAt :: "DetailsRow list \<Rightarrow> DetailsRow list" where
  "orderBy_desc_createdAt rows = sort_key createdAt_desc_key rows"

text \<open>\<^verbatim>\<open>x ? x.toISOString() : ""\<close> and \<^verbatim>\<open>x ? x.toISOString() : null\<close>\<close>

definition iso_or_empty :: "timestamp option \<Rightarrow> date_text" where
  "iso_or_empty t = (case t of None \<Rightarrow> EmptyText | Some x \<Rightarrow> ISOString x)"

definition iso_or_null :: "timestamp option \<Rightarrow> date_text option" where
  "iso_or_null t = (case t of None \<Rightarrow> None | Some x \<Rightarrow> Some (ISOString x))"

text \<open>
  \<^verbatim>\<open>{ ...doc, createdAt: ..., updatedAt: ..., expirationDate: ... }\<close> on a joined row
  and on a plain document row.
\<close>

definition render_details :: "DetailsRow \<Rightarrow> DocumentWithDetails" where
  "render_details r =
     \<lparr> doc_id = doc_id r, doc_name = doc_name r, doc_originalName = doc_originalName r,
       doc_folderId = doc_folderId r, doc_fileType = doc_fileType r, doc_fileSize = doc_fileSize r,
       doc_filePath = doc_filePath r, doc_mimeType = doc_mimeType r, doc_status = doc_status r,
       doc_tags = doc_tags r, doc_description = doc_description r, doc_version = doc_version r,
       doc_isLatestVersion = doc_isLatestVersion r, doc_parentDocumentId = doc_parentDocumentId r,
       doc_expirationDate = iso_or_null (doc_expirationDate r),
       doc_createdBy = doc_createdBy r,
       doc_createdAt = iso_or_empty (doc_createdAt r),
       doc_updatedAt = iso_or_empty (doc_updatedAt r),
       createdByUser = createdByUser r, folder = folder r \<rparr>"


subsection \<open>getDocuments\<close>




subsection \<open>getDocumentById\<close>

text \<open>
  The first row of the join with the given id, whatever its \<^verbatim>\<open>isLatestVersion\<close>; the
  store rejects an id outside the range of the column.
\<close>

definition getDocumentById :: "store \<Rightarrow> int \<Rightarrow> error + DocumentWithDetails option" where
  "getDocumentById s i =
     (if \<not> int4 i then Inl StorageFailure
      else
        (case from_documents_join s (\<lambda>d. doc_id d = i) of
           [] \<Rightarrow> Inr None
         | document # _ \<Rightarrow> Inr (Some (render_details document))))"

subsection \<open>searchDocuments\<close>

text \<open>
  The store's \<^verbatim>\<open>LIKE\<close> operator, pattern first: \<^verbatim>\<open>%\<close> matches any run of
  characters, \<^verbatim>\<open>_\<close> any one character, and a backslash makes the next pattern
  character literal.  A pattern that ends in a lone backslash is rejected by the
  store; the patterns built below end in \<^verbatim>\<open>%\<close>, so that case is \<open>False\<close> here.
\<close>

fun like_match :: "string \<Rightarrow> string \<Rightarrow> bool" where
  "like_match [] s = (s = [])"
| "like_match (c # p) [] = (c = CHR ''%'' \<and> like_match p [])"
| "like_match (c # p) (x # s) =
     (if c = CHR ''%'' then like_match p (x # s) \<or> like_match (c # p) s
      else if c = CHR ''_'' then like_match p s
      else if c = CHR 0x5C then (case p of [] \<Rightarrow> False | e # p' \<Rightarrow> x = e \<and> like_match p' s)
      else x = c \<and> like_match p s)"

text \<open>
  \<^verbatim>\<open>like(column, `%${query}%`)\<close>; on a \<^verbatim>\<open>NULL\<close> column the result is \<^verbatim>\<open>NULL\<close>,
  which neither \<^verbatim>\<open>or\<close> nor \<^verbatim>\<open>where\<close> counts as true.
\<close>

definition like :: "string option \<Rightarrow> string \<Rightarrow> bool" where
  "like column pattern = (case column of None \<Rightarrow> False | Some v \<Rightarrow> like_match pattern v)"

record SearchFilters =
  sf_fileType :: "string option"
  sf_status :: "string option"
  sf_createdBy :: "int option"
  sf_tags :: "string list option"
  sf_dateFrom :: "timestamp option"
  sf_dateTo :: "timestamp option"

text \<open>
  The \<^verbatim>\<open>conditions\<close> array.  Each \<^verbatim>\<open>if (filters?.x)\<close> is a truthiness test: an
  empty string and the number \<open>0\<close> push nothing; a \<^verbatim>\<open>Date\<close> object is always truthy.
  A comparison with a \<^verbatim>\<open>NULL\<close> \<^verbatim>\<open>createdAt\<close> is not true.  \<open>sf_tags\<close> is never read.
\<close>

definition search_conditions :: "string \<Rightarrow> SearchFilters option \<Rightarrow> (DocumentRow \<Rightarrow> bool) list" where
  "search_conditions query filters =
     [\<lambda>d. doc_isLatestVersion d,
      \<lambda>d. like (Some (doc_name d)) (''%'' @ query @ ''%'') \<or>
          like (Some (doc_originalName d)) (''%'' @ query @ ''%'') \<or>
          like (doc_description d) (''%'' @ query @ ''%'')]
     @ (case Option.bind filters sf_fileType of
          None \<Rightarrow> []
        | Some ft \<Rightarrow> if ft = [] then [] else [\<lambda>d. doc_fileType d = ft])
     @ (case Option.bind filters sf_status of
          None \<Rightarrow> []
        | Some st \<Rightarrow> if st = [] then [] else [\<lambda>d. doc_status d = st])
     @ (case Option.bind filters sf_createdBy of
          None \<Rightarrow> []
        | Some u \<Rightarrow> if u = 0 then [] else [\<lambda>d. doc_createdBy d = u])
     @ (case Option.bind filters sf_dateFrom of
          None \<Rightarrow> []
        | Some t0 \<Rightarrow> [\<lambda>d. case doc_createdAt d of None \<Rightarrow> False | Some t \<Rightarrow> t0 \<le> t])
     @ (case Option.bind filters sf_dateTo of
          None \<Rightarrow> []
        | Some t1 \<Rightarrow> [\<lambda>d. case doc_createdAt d of None \<Rightarrow> False | Some t \<Rightarrow> t \<le> t1])"

text \<open>
  The one number among the parameters of the query is \<^verbatim>\<open>filters.createdBy\<close>, when it is
  pushed; the store rejects it outside the range of the column.
\<close>

definition searchDocuments_accepted :: "SearchFilters option \<Rightarrow> bool" where
  "searchDocuments_accepted filters =
     (case Option.bind filters sf_createdBy of
        None \<Rightarrow> True
      | Some u \<Rightarrow> if u = 0 then True else int4 u)"

text \<open>\<^verbatim>\<open>.where(and(...conditions)).orderBy(desc(documents.createdAt))\<close>, then the rendering.\<close>

definition searchDocuments ::
  "store \<Rightarrow> string \<Rightarrow> SearchFilters option \<Rightarrow> error + DocumentWithDetails list" where
  "searchDocuments s query filters =
     (if \<not> searchDocuments_accepted filters then Inl StorageFailure
      else
        (let results = orderBy_desc_createdAt
               (from_documents_join s (\<lambda>d. list_all (\<lambda>c. c d) (search_conditions query filters)))
         in Inr (map render_details results)))"

section \<open>Document mutations and the activity log (server/storage.ts)\<close>





text \<open>\<^verbatim>\<open>db.delete(documents).where(eq(documents.id, id))\<close>\<close>

definition deleteDocument :: "store \<Rightarrow> int \<Rightarrow> error + store" where
  "deleteDocument s i =
     (if \<not> int4 i then Inl StorageFailure
      else Inr (s\<lparr> documents := filter (\<lambda>d. doc_id d \<noteq> i) (documents s) \<rparr>))"

text \<open>
  A \<^verbatim>\<open>jsonb\<close> value is written through \<^verbatim>\<open>JSON.stringify\<close>, which leaves out the
  keys whose value is \<^verbatim>\<open>undefined\<close>.
\<close>

definition jsonb_object :: "(string \<times> json) list \<Rightarrow> (string \<times> json) list" where
  "jsonb_object kvs = filter (\<lambda>kv. snd kv \<noteq> JUndefined) kvs"

text \<open>
  \<^verbatim>\<open>db.insert(activityLog).values({ userId, action, resourceType, resourceId, metadata: metadata || {} })\<close>;
  the id and \<^verbatim>\<open>createdAt\<close> are the column defaults.  The store rejects a \<^verbatim>\<open>userId\<close> or a
  \<^verbatim>\<open>resourceId\<close> outside the range of its column, and nothing is appended.
\<close>

definition logActivity ::
  "timestamp \<Rightarrow> store \<Rightarrow> int \<Rightarrow> string \<Rightarrow> string \<Rightarrow> int \<Rightarrow> (string \<times> json) list option
     \<Rightarrow> error + store" where
  "logActivity now s userId action resourceType resourceId metadata =
     (if \<not> (int4 userId \<and> int4 resourceId) then Inl StorageFailure
      else
        Inr (s\<lparr> activityLog := activityLog s @
                  [\<lparr> log_id = activity_log_id_seq s + 1,
                     log_userId = userId,
                     log_action = action,
                     log_resourceType = resourceType,
                     log_resourceId = resourceId,
                     log_metadata =
                       Some (jsonb_object (case metadata of None \<Rightarrow> [] | Some m \<Rightarrow> m)),
                     log_createdAt = Some now \<rparr>],
               activity_log_id_seq := activity_log_id_seq s + 1 \<rparr>))"

section \<open>Statistics (server/storage.ts)\<close>

text \<open>
  The aggregates of the statistics query, each one pass over the selected rows:
  \<^verbatim>\<open>count(*) filter (where ...)\<close> counts the rows on which the condition is true, and
  \<^verbatim>\<open>sum(...)\<close> is \<^verbatim>\<open>NULL\<close> over no rows.
\<close>

definition count_filter :: "('a \<Rightarrow> bool) \<Rightarrow> 'a list \<Rightarrow> int" where
  "count_filter P rows = fold (\<lambda>r n. if P r then n + 1 else n) rows 0"

definition sum_column :: "('a \<Rightarrow> int) \<Rightarrow> 'a list \<Rightarrow> int option" where
  "sum_column f rows = fold (\<lambda>r acc. Some (case acc of None \<Rightarrow> f r | Some a \<Rightarrow> a + f r)) rows None"

text \<open>\<^verbatim>\<open>x || 0\<close> on a number or \<^verbatim>\<open>null\<close>.\<close>

definition or_zero :: "int option \<Rightarrow> int" where
  "or_zero x = (case x of None \<Rightarrow> 0 | Some v \<Rightarrow> if v = 0 then 0 else v)"

record DocumentStats =
  totalDocuments :: int
  expiringDocuments :: int
  pendingDocuments :: int
  totalStorage :: int

text \<open>
  The threshold is \<^verbatim>\<open>new Date(Date.now() + 7 * 24 * 60 * 60 * 1000)\<close>; a \<^verbatim>\<open>NULL\<close>
  expiration date does not satisfy the comparison.
\<close>

definition getDocumentStats :: "timestamp \<Rightarrow> store \<Rightarrow> DocumentStats" where
  "getDocumentStats now s =
     (let rows = filter doc_isLatestVersion (documents s);
          limit = now + 7 * 24 * 60 * 60 * 1000
      in \<lparr> totalDocuments = or_zero (Some (count_filter (\<lambda>d. True) rows)),
            expiringDocuments =
              or_zero (Some (count_filter
                (\<lambda>d. case doc_expirationDate d of None \<Rightarrow> False | Some e \<Rightarrow> e \<le> limit) rows)),
            pendingDocuments = or_zero (Some (count_filter (\<lambda>d. doc_status d = ''pending'') rows)),
            totalStorage = or_zero (sum_column doc_fileSize rows) \<rparr>)"

section \<open>Route handlers (server/routes.ts)\<close>

text \<open>
  A response is a status code and a JSON body.  The id of a route is
  \<^verbatim>\<open>parseInt(req.params.id)\<close>, a whole number or \<^verbatim>\<open>NaN\<close>: \<open>None\<close> stands for \<^verbatim>\<open>NaN\<close>,
  which the store rejects as an integer.  Whatever a storage call raises inside the
  outer \<^verbatim>\<open>try\<close> ends in the handler's \<^verbatim>\<open>catch\<close>, which answers 500; what was written
  before stays written.
\<close>

datatype response = Response nat json

definition getCurrentUserId :: int where
  "getCurrentUserId = 1"

text \<open>The upload directory, as the set of paths that exist.\<close>

type_synonym filesystem = "string set"

text \<open>\<^verbatim>\<open>fs.unlinkSync(path)\<close> throws when the path does not exist.\<close>

definition unlinkSync :: "filesystem \<Rightarrow> string \<Rightarrow> error + filesystem" where
  "unlinkSync files path = (if path \<in> files then Inr (files - {path}) else Inl ENOENT)"

text \<open>
  \<^verbatim>\<open>DELETE /api/documents/:id\<close>.  The inner \<^verbatim>\<open>try\<close> only logs a failure of
  \<^verbatim>\<open>unlinkSync\<close>; the row is deleted and the activity logged after it either way.
\<close>

definition delete_failed :: response where
  "delete_failed = Response 500 (JObj [(''message'', JStr ''Failed to delete document'')])"

definition delete_document_route ::
  "timestamp \<Rightarrow> store \<times> filesystem \<Rightarrow> int option
     \<Rightarrow> (store \<times> filesystem) \<times> response" where
  "delete_document_route now st rid =
     (case rid of
        None \<Rightarrow> (st, delete_failed)
      | Some i \<Rightarrow>
          (case getDocumentById (fst st) i of
             Inl err \<Rightarrow> (st, delete_failed)
           | Inr None \<Rightarrow> (st, Response 404 (JObj [(''message'', JStr ''Document not found'')]))
           | Inr (Some document) \<Rightarrow>
               (let files = (case unlinkSync (snd st) (doc_filePath document) of
                               Inl err \<Rightarrow> snd st
                             | Inr files' \<Rightarrow> files')
                in case deleteDocument (fst st) i of
                     Inl err \<Rightarrow> ((fst st, files), delete_failed)
                   | Inr s1 \<Rightarrow>
                       (case logActivity now s1 getCurrentUserId ''delete_document'' ''document'' i None of
                          Inl err \<Rightarrow> ((s1, files), delete_failed)
                        | Inr s2 \<Rightarrow>
                            ((s2, files),
                             Response 200
                               (JObj [(''message'', JStr ''Document deleted successfully'')]))))))"




section \<open>Notions used in the statements\<close>







text \<open>
  The ids of the folder rows are positive, as the serial sequence of the table delivers
  them; \<^verbatim>\<open>createFolder\<close>, the one operation that inserts a folder, names no id.
\<close>

definition positive_folder_ids :: "store \<Rightarrow> bool" where
  "positive_folder_ids s = list_all (\<lambda>f. 0 < folder_id f) (folders s)"



section \<open>Example states\<close>

definition empty_store :: store where
  "empty_store = \<lparr> users = [], folders = [], documents = [], documentShares = [],
                   activityLog = [], folders_id_seq = 0, activity_log_id_seq = 0 \<rparr>"

definition new_folder :: "string \<Rightarrow> int option \<Rightarrow> InsertFolder" where
  "new_folder n p = \<lparr> ins_name = n, ins_parentId = Some p, ins_type = Some ''standard'',
                      ins_permissions = Some [], ins_createdBy = 1 \<rparr>"

text \<open>A folder row under a parent 7, with the path that a missing parent leaves.\<close>

definition undefined_invoices :: Folder where
  "undefined_invoices =
     \<lparr> folder_id = 1, folder_name = ''Invoices'', folder_parentId = Some 7,
       folder_path = ''undefined/Invoices'', folder_type = ''standard'',
       folder_permissions = Some [], folder_createdBy = 1,
       folder_createdAt = Some 1000, folder_updatedAt = Some 1000 \<rparr>"

definition admin :: User where
  "admin = \<lparr> user_id = 1, user_username = ''admin'', user_email = ''admin@example.com'',
             user_firstName = Some ''Admin'', user_lastName = Some ''User'', user_role = ''admin'',
             user_createdAt = Some 0, user_updatedAt = Some 0 \<rparr>"

definition accounting :: "int \<Rightarrow> Folder" where
  "accounting i = \<lparr> folder_id = i, folder_name = ''Accounting'', folder_parentId = None,
       folder_path = ''Accounting'', folder_type = ''standard'', folder_permissions = Some [],
       folder_createdBy = 1, folder_createdAt = Some 0, folder_updatedAt = Some 0 \<rparr>"

text \<open>An uploaded file: version 1, latest, in folder 1, created by user 1 at time \<open>t\<close>.\<close>

definition upload :: "int \<Rightarrow> string \<Rightarrow> timestamp \<Rightarrow> DocumentRow" where
  "upload i n t = \<lparr> doc_id = i, doc_name = n, doc_originalName = n, doc_folderId = 1,
       doc_fileType = ''pdf'', doc_fileSize = 10, doc_filePath = ''uploads/'' @ n,
       doc_mimeType = ''application/pdf'', doc_status = ''draft'', doc_tags = Some [],
       doc_description = None, doc_version = 1, doc_isLatestVersion = True,
       doc_parentDocumentId = None, doc_expirationDate = None, doc_createdBy = 1,
       doc_createdAt = Some t, doc_updatedAt = Some t \<rparr>"

text \<open>
  One user, one folder, and two rows of one document: the first version, no longer
  the latest, and its successor.
\<close>

definition versioned_store :: store where
  "versioned_store = empty_store
     \<lparr> users := [admin], folders := [accounting 1],
       documents := [(upload 1 ''invoice.pdf'' 100)\<lparr> doc_isLatestVersion := False \<rparr>,
                     (upload 2 ''invoice.pdf'' 200)\<lparr> doc_version := 2, doc_parentDocumentId := Some 1 \<rparr>],
       folders_id_seq := 1 \<rparr>"

text \<open>A latest-version document whose folder row is gone.\<close>

definition orphan_store :: store where
  "orphan_store = empty_store \<lparr> users := [admin], documents := [upload 1 ''report.pdf'' 100] \<rparr>"



text \<open>
  Three document rows: a superseded pending one, a latest pending one that expires, and
  a latest draft of 25 bytes.
\<close>

definition stats_store :: store where
  "stats_store = empty_store
     \<lparr> documents :=
         [(upload 1 ''old.pdf'' 100)\<lparr> doc_isLatestVersion := False, doc_status := ''pending'' \<rparr>,
          (upload 2 ''contract.pdf'' 200)\<lparr> doc_status := ''pending'', doc_expirationDate := Some 5000 \<rparr>,
          (upload 3 ''notes.pdf'' 300)\<lparr> doc_fileSize := 25 \<rparr>] \<rparr>"


section \<open>Folder creation\<close>

lemma positive_folder_ids_empty: "positive_folder_ids empty_store \<and> 0 \<le> folders_id_seq empty_store"
  by (simp add: positive_folder_ids_def empty_store_def)

lemma createFolder_keeps_positive_ids:
  assumes "positive_folder_ids s" and "0 \<le> folders_id_seq s"
  shows "positive_folder_ids (fst (createFolder now s fd)) \<and>
         0 \<le> folders_id_seq (fst (createFolder now s fd))"
  using assms
  by (auto simp: createFolder_def positive_folder_ids_def Let_def split: sum.splits)

lemma createFolder_returns:
  assumes "insert_folder_accepted fd"
  shows "\<exists>row. snd (createFolder now s fd) = Inr row"
proof -
  have "\<exists>path. createFolder_path s fd = Inr path"
    using assms
    by (auto simp: createFolder_path_def insert_folder_accepted_def getFolderById_def
        split: option.splits)
  with assms show ?thesis
    by (auto simp: createFolder_def Let_def)
qed

text \<open>
  C1 (the code departs from the claim).  The claim: \<^verbatim>\<open>createFolder\<close> with a non-null
  \<^verbatim>\<open>parentId\<close> that no folder row has fails with NotFound and inserts nothing.
  On the empty store, with \<^verbatim>\<open>parentId = 7\<close> and name \<^verbatim>\<open>Invoices\<close>, the code raises
  nothing: it inserts a row whose path is the text \<^verbatim>\<open>undefined/Invoices\<close> and returns it.
\<close>

theorem createFolder_missing_parent_inserts:
  "getFolderById empty_store 7 = Inr None \<and>
   createFolder 1000 empty_store (new_folder ''Invoices'' (Some 7))
     = (empty_store\<lparr> folders := [undefined_invoices], folders_id_seq := 1 \<rparr>,
        Inr undefined_invoices) \<and>
   folder_path undefined_invoices = ''undefined/Invoices''"
  by (simp add: createFolder_def createFolder_path_def getFolderById_def template_str_def
      insert_folder_accepted_def int4_def type_or_standard_def undefined_invoices_def
      empty_store_def new_folder_def Let_def)

text \<open>
  C2.  On every store whose folder ids are positive, for every call
  \<^verbatim>\<open>createFolder(folder)\<close> that returns a folder: if \<^verbatim>\<open>folder.parentId\<close> is null, the
  returned folder's path is \<^verbatim>\<open>folder.name\<close>; if \<^verbatim>\<open>folder.parentId\<close> is the id of an existing
  folder \<open>P\<close>, the returned folder's path is \<^verbatim>\<open>P.path + "/" + folder.name\<close>.  The call
  returns a folder whenever the store accepts the insert, that is, \<^verbatim>\<open>parentId\<close> is
  null or a number in the range of the column and \<^verbatim>\<open>createdBy\<close> is in that range.
\<close>

theorem createFolder_path_correct:
  assumes "positive_folder_ids s"
  shows "(\<forall>row. snd (createFolder now s fd) = Inr row \<longrightarrow>
            (ins_parentId fd = Some None \<longrightarrow> folder_path row = ins_name fd) \<and>
            (\<forall>p P. ins_parentId fd = Some (Some p) \<and> getFolderById s p = Inr (Some P) \<longrightarrow>
               folder_path row = folder_path P @ ''/'' @ ins_name fd)) \<and>
         (insert_folder_accepted fd \<longrightarrow> (\<exists>row. snd (createFolder now s fd) = Inr row))"
proof -
  have nonzero: "p \<noteq> 0" if "getFolderById s p = Inr (Some P)" for p P
  proof -
    from that have "find (\<lambda>f. folder_id f = p) (folders s) = Some P"
      by (simp add: getFolderById_def split: if_splits)
    then have "P \<in> set (folders s)" "folder_id P = p"
      by (auto simp: find_Some_iff)
    with assms show ?thesis
      by (auto simp: positive_folder_ids_def list_all_iff)
  qed
  have root: "folder_path row = ins_name fd"
    if "snd (createFolder now s fd) = Inr row" "ins_parentId fd = Some None" for row
    using that
    by (auto simp: createFolder_def createFolder_path_def Let_def split: if_splits)
  have child: "folder_path row = folder_path P @ ''/'' @ ins_name fd"
    if "snd (createFolder now s fd) = Inr row" "ins_parentId fd = Some (Some p)"
      "getFolderById s p = Inr (Some P)" for row p P
    using that nonzero [OF that(3)]
    by (auto simp: createFolder_def createFolder_path_def template_str_def Let_def
        split: if_splits)
  from root child createFolder_returns [of fd now s] show ?thesis by blast
qed

text \<open>
  The scenario of the specification: the root folder \<^verbatim>\<open>Accounting\<close>, then
  \<^verbatim>\<open>Invoices\<close> under it.
\<close>

theorem createFolder_path_correct_witness:
  "positive_folder_ids empty_store \<and>
   positive_folder_ids (fst (createFolder 1000 empty_store (new_folder ''Accounting'' None))) \<and>
   (\<exists>root child.
      snd (createFolder 1000 empty_store (new_folder ''Accounting'' None)) = Inr root \<and>
      folder_path root = ''Accounting'' \<and>
      getFolderById (fst (createFolder 1000 empty_store (new_folder ''Accounting'' None))) 1
        = Inr (Some root) \<and>
      snd (createFolder 2000
             (fst (createFolder 1000 empty_store (new_folder ''Accounting'' None)))
             (new_folder ''Invoices'' (Some 1))) = Inr child \<and>
      folder_path child = ''Accounting/Invoices'')"
proof -
  let ?s1 = "fst (createFolder 1000 empty_store (new_folder ''Accounting'' None))"
  have p0: "positive_folder_ids empty_store" "0 \<le> folders_id_seq empty_store"
    using positive_folder_ids_empty by simp_all
  have p1: "positive_folder_ids ?s1"
    using createFolder_keeps_positive_ids [OF p0] by simp
  have acc: "insert_folder_accepted (new_folder ''Accounting'' None)"
      "insert_folder_accepted (new_folder ''Invoices'' (Some 1))"
    by (simp_all add: insert_folder_accepted_def new_folder_def int4_def)
  have par: "ins_parentId (new_folder ''Accounting'' None) = Some None"
      "ins_parentId (new_folder ''Invoices'' (Some 1)) = Some (Some 1)"
      "ins_name (new_folder ''Accounting'' None) = ''Accounting''"
      "ins_name (new_folder ''Invoices'' (Some 1)) = ''Invoices''"
    by (simp_all add: new_folder_def)
  note first = createFolder_path_correct [OF p0(1), of 1000 "new_folder ''Accounting'' None"]
  from first acc(1) obtain root
    where root: "snd (createFolder 1000 empty_store (new_folder ''Accounting'' None)) = Inr root"
    by blast
  with first par have root_path: "folder_path root = ''Accounting''"
    by simp
  have get: "getFolderById ?s1 1 = Inr (Some root)"
    using root
    by (auto simp: createFolder_def createFolder_path_def insert_folder_accepted_def
        getFolderById_def int4_def empty_store_def new_folder_def Let_def)
  note second = createFolder_path_correct [OF p1, of 2000 "new_folder ''Invoices'' (Some 1)"]
  from second acc(2) obtain child
    where child: "snd (createFolder 2000 ?s1 (new_folder ''Invoices'' (Some 1))) = Inr child"
    by blast
  with second par get have "folder_path child = folder_path root @ ''/'' @ ''Invoices''"
    by simp
  with root_path have "folder_path child = ''Accounting/Invoices''"
    by simp
  with p0 p1 root root_path get child show ?thesis by blast
qed

section \<open>Listing documents\<close>


lemma find_no_match: "k \<notin> key ` set xs \<Longrightarrow> find (\<lambda>x. key x = k) xs = None"
  by (induction xs) auto










lemma mset_single_list: "mset xs = {#x#} \<Longrightarrow> xs = [x]"
  by (cases xs) auto

lemma versioned_store_tables:
  "documents versioned_store =
      [(upload 1 ''invoice.pdf'' 100)\<lparr> doc_isLatestVersion := False \<rparr>,
       (upload 2 ''invoice.pdf'' 200)\<lparr> doc_version := 2, doc_parentDocumentId := Some 1 \<rparr>]"
  "users versioned_store = [admin]"
  "folders versioned_store = [accounting 1]"
  by (simp_all add: versioned_store_def empty_store_def)




section \<open>Searching documents\<close>












text \<open>
  C5.  For every store, query and filter object \<open>f\<close>, \<^verbatim>\<open>searchDocuments(query, f)\<close> returns
  the same result as \<^verbatim>\<open>searchDocuments(query, f)\<close> with the \<^verbatim>\<open>tags\<close> entry removed: the
  \<^verbatim>\<open>tags\<close> filter has no effect on the result.
\<close>

theorem searchDocuments_ignores_tags:
  "searchDocuments s query (Some (f\<lparr> sf_tags := t \<rparr>)) = searchDocuments s query (Some (f\<lparr> sf_tags := None \<rparr>))"
  by (simp add: searchDocuments_def searchDocuments_accepted_def search_conditions_def)





section \<open>Lookup of a single document\<close>











section \<open>Statistics over the latest versions\<close>

lemma fold_count:
  "fold (\<lambda>r n. if P r then n + 1 else n) rows k = k + int (length (filter P rows))"
  by (induction rows arbitrary: k) simp_all

lemma count_filter_length: "count_filter P rows = int (length (filter P rows))"
  by (simp add: count_filter_def fold_count)

lemma fold_sum:
  "fold (\<lambda>r acc. Some (case acc of None \<Rightarrow> f r | Some a \<Rightarrow> a + f r)) rows acc =
     (case rows of [] \<Rightarrow> acc
      | _ # _ \<Rightarrow> Some ((case acc of None \<Rightarrow> 0 | Some a \<Rightarrow> a) + sum_list (map f rows)))"
  for f :: "'a \<Rightarrow> int"
  by (induction rows arbitrary: acc) (simp_all split: list.splits option.splits)

lemma or_zero_sum_column: "or_zero (sum_column f rows) = sum_list (map f rows)"
  by (simp add: sum_column_def fold_sum or_zero_def split: list.splits)

lemma or_zero_Some: "or_zero (Some v) = v"
  by (simp add: or_zero_def)

lemma filter_latest_and:
  "filter P (filter doc_isLatestVersion rows) = filter (\<lambda>d. doc_isLatestVersion d \<and> P d) rows"
  by (induction rows) auto

text \<open>
  C6.  For every store, \<^verbatim>\<open>getDocumentStats()\<close> returns, computed over exactly the rows with
  \<^verbatim>\<open>isLatestVersion = true\<close>: \<^verbatim>\<open>totalDocuments\<close> their count, \<^verbatim>\<open>expiringDocuments\<close> the
  count of those with \<^verbatim>\<open>expirationDate <= now + 7 days\<close>, \<^verbatim>\<open>pendingDocuments\<close> the count of
  those with status \<^verbatim>\<open>pending\<close>, and \<^verbatim>\<open>totalStorage\<close> the sum of their \<^verbatim>\<open>fileSize\<close>; every
  aggregate is 0 when no row is a latest version.
\<close>

theorem getDocumentStats_over_latest:
  "totalDocuments (getDocumentStats now s)
     = int (length (filter doc_isLatestVersion (documents s))) \<and>
   expiringDocuments (getDocumentStats now s)
     = int (length (filter (\<lambda>d. doc_isLatestVersion d \<and>
              (\<exists>e. doc_expirationDate d = Some e \<and> e \<le> now + 7 * 24 * 60 * 60 * 1000)) (documents s))) \<and>
   pendingDocuments (getDocumentStats now s)
     = int (length (filter (\<lambda>d. doc_isLatestVersion d \<and> doc_status d = ''pending'') (documents s))) \<and>
   totalStorage (getDocumentStats now s)
     = sum_list (map doc_fileSize (filter doc_isLatestVersion (documents s))) \<and>
   (filter doc_isLatestVersion (documents s) = [] \<longrightarrow>
      getDocumentStats now s = \<lparr> totalDocuments = 0, expiringDocuments = 0,
                                  pendingDocuments = 0, totalStorage = 0 \<rparr>)"
proof -
  have e: "(case doc_expirationDate d of None \<Rightarrow> False | Some e \<Rightarrow> e \<le> lim) \<longleftrightarrow>
        (\<exists>e. doc_expirationDate d = Some e \<and> e \<le> lim)" for d :: DocumentRow and lim
    by (cases "doc_expirationDate d") simp_all
  show ?thesis
    by (simp add: getDocumentStats_def Let_def count_filter_length or_zero_Some
        or_zero_sum_column filter_latest_and e)
qed

text \<open>The empty store, and the store with three rows, two of them latest versions.\<close>

theorem getDocumentStats_over_latest_witness:
  "getDocumentStats 1000 empty_store
     = \<lparr> totalDocuments = 0, expiringDocuments = 0, pendingDocuments = 0, totalStorage = 0 \<rparr> \<and>
   totalDocuments (getDocumentStats 1000 stats_store) = 2 \<and>
   expiringDocuments (getDocumentStats 1000 stats_store) = 1 \<and>
   pendingDocuments (getDocumentStats 1000 stats_store) = 1 \<and>
   totalStorage (getDocumentStats 1000 stats_store) = 35"
proof -
  have none: "filter doc_isLatestVersion (documents empty_store) = []"
    by (simp add: empty_store_def)
  have zero: "getDocumentStats 1000 empty_store
     = \<lparr> totalDocuments = 0, expiringDocuments = 0, pendingDocuments = 0, totalStorage = 0 \<rparr>"
    using none getDocumentStats_over_latest [of 1000 empty_store] by blast
  have docs: "documents stats_store =
         [(upload 1 ''old.pdf'' 100)\<lparr> doc_isLatestVersion := False, doc_status := ''pending'' \<rparr>,
          (upload 2 ''contract.pdf'' 200)\<lparr> doc_status := ''pending'', doc_expirationDate := Some 5000 \<rparr>,
          (upload 3 ''notes.pdf'' 300)\<lparr> doc_fileSize := 25 \<rparr>]"
    by (simp add: stats_store_def empty_store_def)
  show ?thesis
    using zero getDocumentStats_over_latest [of 1000 stats_store]
    by (simp add: docs upload_def)
qed

section \<open>Updating a document\<close>








section \<open>Deleting a document\<close>

text \<open>
  C8 (amended).  For every document that \<^verbatim>\<open>getDocumentById\<close> finds (its row exists together
  with the user row of its creator and its folder row) and whose backing file is absent
  on disk, \<^verbatim>\<open>DELETE /api/documents/:id\<close> still removes the database row, and the failure of
  the filesystem does not reach the caller: the answer is 200.
\<close>

theorem delete_document_missing_file:
  assumes "getDocumentById s i = Inr (Some document)"
    and "doc_filePath document \<notin> files"
  shows "snd (delete_document_route now (s, files) (Some i))
           = Response 200 (JObj [(''message'', JStr ''Document deleted successfully'')]) \<and>
         documents (fst (fst (delete_document_route now (s, files) (Some i))))
           = filter (\<lambda>d. doc_id d \<noteq> i) (documents s) \<and>
         i \<notin> doc_id ` set (documents (fst (fst (delete_document_route now (s, files) (Some i))))) \<and>
         snd (fst (delete_document_route now (s, files) (Some i))) = files"
proof -
  from assms(1) have i: "int4 i"
    by (simp add: getDocumentById_def split: if_splits)
  have u: "int4 getCurrentUserId"
    by (simp add: getCurrentUserId_def int4_def)
  show ?thesis
    using assms i u
    by (auto simp: delete_document_route_def unlinkSync_def deleteDocument_def logActivity_def)
qed

text \<open>
  Deleting the latest version in the store with two versions, with no file on disk.
\<close>

theorem delete_document_missing_file_witness:
  "getDocumentById versioned_store 2
     = Inr (Some (render_details (select_details
         ((upload 2 ''invoice.pdf'' 200)\<lparr> doc_version := 2, doc_parentDocumentId := Some 1 \<rparr>)
         admin (accounting 1)))) \<and>
   ''uploads/invoice.pdf'' \<notin> ({} :: filesystem) \<and>
   snd (delete_document_route 9000 (versioned_store, {}) (Some 2))
     = Response 200 (JObj [(''message'', JStr ''Document deleted successfully'')]) \<and>
   documents (fst (fst (delete_document_route 9000 (versioned_store, {}) (Some 2))))
     = [(upload 1 ''invoice.pdf'' 100)\<lparr> doc_isLatestVersion := False \<rparr>]"
proof -
  let ?r = "render_details (select_details
         ((upload 2 ''invoice.pdf'' 200)\<lparr> doc_version := 2, doc_parentDocumentId := Some 1 \<rparr>)
         admin (accounting 1))"
  have get: "getDocumentById versioned_store 2 = Inr (Some ?r)"
    by (simp add: getDocumentById_def int4_def from_documents_join_def versioned_store_tables
        upload_def admin_def accounting_def)
  have absent: "doc_filePath ?r \<notin> ({} :: filesystem)"
    by simp
  have docs: "filter (\<lambda>d. doc_id d \<noteq> 2) (documents versioned_store)
      = [(upload 1 ''invoice.pdf'' 100)\<lparr> doc_isLatestVersion := False \<rparr>]"
    by (simp add: versioned_store_tables upload_def)
  show ?thesis
    using get delete_document_missing_file [OF get absent, of 9000] docs by simp
qed

text \<open>
  C8 as stated fails: for a document row whose folder row is gone and whose file is
  absent, the handler answers 404 and the row stays.
\<close>

theorem delete_document_orphan_counterexample:
  "upload 1 ''report.pdf'' 100 \<in> set (documents orphan_store) \<and>
   doc_filePath (upload 1 ''report.pdf'' 100) \<notin> ({} :: filesystem) \<and>
   delete_document_route 9000 (orphan_store, {}) (Some 1)
     = ((orphan_store, {}), Response 404 (JObj [(''message'', JStr ''Document not found'')]))"
  by (simp add: delete_document_route_def getDocumentById_def int4_def from_documents_join_def
      orphan_store_def empty_store_def upload_def)

section \<open>Creating a share link\<close>




end
